theory Spec2Isabelle
  imports Main
begin

section \<open>The GitHub release receiver of invenio-github\<close>

text \<open>
  A shallow embedding of \<^verbatim>\<open>src/invenio_github/receivers.py\<close>: the class
  \<^verbatim>\<open>GitHubReceiver\<close> with its methods \<^verbatim>\<open>run\<close>, \<^verbatim>\<open>_handle_event\<close> and
  \<^verbatim>\<open>_handle_create_release\<close> (with the nested \<^verbatim>\<open>_create_release\<close>), and the
  module-level dictionary \<^verbatim>\<open>state\<close>. Isabelle names cannot start with an underscore, so
  the leading underscore of the private methods is dropped.

  The methods mutate the event, the dictionary \<^verbatim>\<open>state\<close> and the database session, and
  they raise. In the model every method takes the world and the event and returns them
  updated, together with the exception that left the method, if one did.
\<close>

subsection \<open>Payloads: JSON documents with Python's operations\<close>

text \<open>
  \<^verbatim>\<open>event.payload\<close> is a parsed JSON document. Objects are association lists, read
  with \<open>map_of\<close> (the first binding of a key). Floating-point numbers are left out.
\<close>

datatype json =
  JNull
  | JBool bool
  | JInt int
  | JStr string
  | JList "json list"
  | JObj "(string \<times> json) list"

subsection \<open>Data model\<close>

text \<open>Modelled from the spec: the Repository Record of \<^verbatim>\<open>invenio_github.models\<close>
  (not among the sources): external id, name, and the flag \<^verbatim>\<open>enabled\<close>, the one field
  the receiver reads.\<close>

record repository =
  github_id :: json
  name :: json
  enabled :: bool

text \<open>Modelled from the spec: \<^verbatim>\<open>ReleaseStatus\<close> of \<^verbatim>\<open>invenio_github.models\<close>, which
  is not among the sources; the receiver only ever uses \<^verbatim>\<open>RECEIVED\<close>.\<close>

datatype release_status = RECEIVED | PROCESSING | PROCESSED | ERROR

text \<open>A \<^verbatim>\<open>Release\<close> row with the fields \<^verbatim>\<open>_create_release\<close> passes to its constructor.
  The field \<open>event\<close> holds the identity of the event object the release refers to.\<close>

record release =
  release_id :: json
  tag :: json
  repository :: repository
  event :: nat
  status :: release_status

text \<open>
  Modelled from the spec: the error classes of \<^verbatim>\<open>invenio_github.errors\<close> (not among the
  sources) are distinct error kinds, none a subclass of another. The type has one
  constructor per class the \<^verbatim>\<open>except\<close> clauses of the receiver tell apart, with the
  arguments the source passes. \<open>SQLAlchemyError\<close> stands for any instance of that class,
  \<open>OtherException\<close> for an instance of any other subclass of \<^verbatim>\<open>Exception\<close> that a
  collaborator may raise.
\<close>

datatype exn =
  ReleaseAlreadyReceivedError "release option"
  | RepositoryDisabledError repository
  | RepositoryNotFoundError json
  | RepositoryAccessError string
  | InvalidSenderError string
  | SQLAlchemyError string
  | KeyError string
  | TypeError string
  | AttributeError string
  | OtherException string

text \<open>A webhook event: its identity, the payload, and the response slot. \<open>JNull\<close> in
  \<open>response\<close> and \<open>None\<close> in \<open>response_code\<close> are Python's \<^verbatim>\<open>None\<close> (unset).\<close>

record event =
  event_id :: nat
  payload :: json
  response :: json
  response_code :: "int option"

text \<open>The effects on collaborators, logged in program order (a ghost log: the source has
  no such list). \<open>ResponseWrite c\<close> is one assignment of the pair
  \<^verbatim>\<open>event.response\<close>, \<^verbatim>\<open>event.response_code\<close> with code \<open>c\<close>.\<close>

datatype effect =
  StoreQuery json
  | SessionAdd json
  | SessionCommit
  | TaskEnqueue json
  | ProcessSync json
  | ResponseWrite int

text \<open>
  The world the receiver acts on: the module-level dictionary \<^verbatim>\<open>state\<close> (release id
  to the event being admitted), the committed \<^verbatim>\<open>Release\<close> rows, the rows staged in
  \<^verbatim>\<open>db.session\<close>, the queue of the Celery task \<^verbatim>\<open>process_release\<close>, and the log.
\<close>

record world =
  state :: "json \<rightharpoonup> nat"
  releases :: "release list"
  session_new :: "release list"
  task_queue :: "json list"
  trace :: "effect list"

datatype repo_result = RepoFound repository | RepoNoResultFound | RepoRaises exn

text \<open>
  The collaborators that are not among the sources, as parameters:
  \<^item> \<open>config\<close>: \<^verbatim>\<open>current_app.config\<close>;
  \<^item> \<open>query_raises\<close>: the exception \<^verbatim>\<open>Release.query.filter_by(...).first()\<close> raises, if any;
  \<^item> \<open>repository_get\<close>: \<^verbatim>\<open>Repository.get(repo_id, repo_name)\<close>, which returns a
    repository, raises \<^verbatim>\<open>NoResultFound\<close>, or raises something else;
  \<^item> \<open>commit_raises\<close>: an exception \<^verbatim>\<open>db.session.commit()\<close> raises for a reason outside
    this process (a lost race, a lost connection), if any;
  \<^item> \<open>delay_raises\<close>: the exception \<^verbatim>\<open>process_release.delay\<close> raises, if any;
  \<^item> \<open>process_release_sync\<close>: \<^verbatim>\<open>release_api_class(release).process_release()\<close>, which
    gets the committed and the staged rows and returns them changed at will, with the
    exception it raises, if any;
  \<^item> \<open>str_exn\<close>: \<^verbatim>\<open>str(e)\<close>.
\<close>

record env =
  config :: "string \<rightharpoonup> json"
  query_raises :: "exn option"
  repository_get :: "json \<Rightarrow> json \<Rightarrow> repo_result"
  commit_raises :: "exn option"
  delay_raises :: "exn option"
  process_release_sync ::
    "release \<Rightarrow> release list \<Rightarrow> release list \<Rightarrow> exn option \<times> release list \<times> release list"
  str_exn :: "exn \<Rightarrow> string"

subsection \<open>Python's operations on JSON values\<close>

text \<open>Truthiness, as \<^verbatim>\<open>not x\<close> and \<^verbatim>\<open>if x:\<close> read it.\<close>

fun py_truthy :: "json \<Rightarrow> bool" where
  "py_truthy JNull = False"
| "py_truthy (JBool b) = b"
| "py_truthy (JInt i) = (i \<noteq> 0)"
| "py_truthy (JStr s) = (s \<noteq> [])"
| "py_truthy (JList xs) = (xs \<noteq> [])"
| "py_truthy (JObj kvs) = (kvs \<noteq> [])"

text \<open>\<^verbatim>\<open>x.get(k, d)\<close>: only a dict has the method.\<close>

fun py_get :: "json \<Rightarrow> string \<Rightarrow> json \<Rightarrow> exn + json" where
  "py_get (JObj kvs) k d = Inr (case map_of kvs k of None \<Rightarrow> d | Some v \<Rightarrow> v)"
| "py_get _ k d = Inl (AttributeError ''get'')"

text \<open>\<^verbatim>\<open>x[k]\<close> with a string key: \<^verbatim>\<open>KeyError\<close> on a dict without the key,
  \<^verbatim>\<open>TypeError\<close> on anything that is not a dict.\<close>

fun py_getitem :: "json \<Rightarrow> string \<Rightarrow> exn + json" where
  "py_getitem (JObj kvs) k = (case map_of kvs k of None \<Rightarrow> Inl (KeyError k) | Some v \<Rightarrow> Inr v)"
| "py_getitem _ k = Inl (TypeError ''subscript'')"

text \<open>\<^verbatim>\<open>x[a][b]\<close>, left to right.\<close>

definition py_getitem2 :: "json \<Rightarrow> string \<Rightarrow> string \<Rightarrow> exn + json" where
  "py_getitem2 x a b = (case py_getitem x a of Inl e \<Rightarrow> Inl e | Inr y \<Rightarrow> py_getitem y b)"

text \<open>A dict key must be hashable: lists and dicts are not. \<^verbatim>\<open>True\<close> and \<^verbatim>\<open>False\<close> are
  the keys \<^verbatim>\<open>1\<close> and \<^verbatim>\<open>0\<close>.\<close>

fun hashable :: "json \<Rightarrow> bool" where
  "hashable (JList xs) = False"
| "hashable (JObj kvs) = False"
| "hashable _ = True"

fun dict_key :: "json \<Rightarrow> json" where
  "dict_key (JBool b) = JInt (if b then 1 else 0)"
| "dict_key j = j"

subsection \<open>The collaborators' operations\<close>

definition log :: "effect \<Rightarrow> world \<Rightarrow> world" where
  "log e w = w\<lparr>trace := trace w @ [e]\<rparr>"

text \<open>Modelled from the spec: \<^verbatim>\<open>Release.query.filter_by(release_id=...).first()\<close>, the
  point lookup of the Release Record Store: the first committed row with that id.\<close>

definition release_query_first :: "env \<Rightarrow> json \<Rightarrow> world \<Rightarrow> (exn + release option) \<times> world" where
  "release_query_first env rid w =
     (case query_raises env of
        Some e \<Rightarrow> (Inl e, log (StoreQuery rid) w)
      | None \<Rightarrow> (Inr (find (\<lambda>r. release_id r = rid) (releases w)), log (StoreQuery rid) w))"

text \<open>\<^verbatim>\<open>db.session.add(release_object)\<close>: stage the row.\<close>

definition session_add :: "release \<Rightarrow> world \<Rightarrow> world" where
  "session_add r w = log (SessionAdd (release_id r)) (w\<lparr>session_new := session_new w @ [r]\<rparr>)"

text \<open>Modelled from the spec: \<^verbatim>\<open>db.session.commit()\<close> persists all staged rows or fails
  as a whole; the store keeps release ids unique and raises a storage error otherwise.\<close>

definition session_commit :: "env \<Rightarrow> world \<Rightarrow> exn option \<times> world" where
  "session_commit env w =
     (case commit_raises env of
        Some e \<Rightarrow> (Some e, log SessionCommit w)
      | None \<Rightarrow>
          if distinct (map release_id (releases w @ session_new w))
          then (None, log SessionCommit (w\<lparr>releases := releases w @ session_new w, session_new := []\<rparr>))
          else (Some (SQLAlchemyError ''IntegrityError''), log SessionCommit w))"

text \<open>\<^verbatim>\<open>process_release.delay(release.release_id)\<close>: enqueue the id for the task.\<close>

definition process_release_delay :: "env \<Rightarrow> json \<Rightarrow> world \<Rightarrow> exn option \<times> world" where
  "process_release_delay env rid w =
     (case delay_raises env of
        Some e \<Rightarrow> (Some e, w)
      | None \<Rightarrow> (None, log (TaskEnqueue rid) (w\<lparr>task_queue := task_queue w @ [rid]\<rparr>)))"

text \<open>The synchronous processor only reaches the database.\<close>

definition process_release_now :: "env \<Rightarrow> release \<Rightarrow> world \<Rightarrow> exn option \<times> world" where
  "process_release_now env r w =
     (case process_release_sync env r (releases w) (session_new w) of
        (x, rs, ss) \<Rightarrow> (x, log (ProcessSync (release_id r)) (w\<lparr>releases := rs, session_new := ss\<rparr>)))"

subsection \<open>The receiver\<close>

text \<open>The nested function \<^verbatim>\<open>_create_release(event)\<close>, lines 88 to 119.\<close>

definition create_release :: "env \<Rightarrow> event \<Rightarrow> world \<Rightarrow> (exn + release) \<times> world" where
  "create_release env ev w =
     (case py_getitem2 (payload ev) ''release'' ''id'' of
        Inl e \<Rightarrow> (Inl e, w)
      | Inr rid \<Rightarrow>
         (case release_query_first env rid w of
            (Inl e, w1) \<Rightarrow> (Inl e, w1)
          | (Inr (Some existing_release), w1) \<Rightarrow>
              (Inl (ReleaseAlreadyReceivedError (Some existing_release)), w1)
          | (Inr None, w1) \<Rightarrow>
             (case py_getitem2 (payload ev) ''repository'' ''id'' of
                Inl e \<Rightarrow> (Inl e, w1)
              | Inr repo_id \<Rightarrow>
                 (case py_getitem2 (payload ev) ''repository'' ''name'' of
                    Inl e \<Rightarrow> (Inl e, w1)
                  | Inr repo_name \<Rightarrow>
                     (case repository_get env repo_id repo_name of
                        RepoNoResultFound \<Rightarrow> (Inl (RepositoryNotFoundError repo_name), w1)
                      | RepoRaises e \<Rightarrow> (Inl e, w1)
                      | RepoFound repo \<Rightarrow>
                          if enabled repo then
                            (case py_getitem2 (payload ev) ''release'' ''tag_name'' of
                               Inl e \<Rightarrow> (Inl e, w1)
                             | Inr tag_name \<Rightarrow>
                                 (Inr \<lparr>release_id = rid, tag = tag_name, repository = repo,
                                       event = event_id ev, status = RECEIVED\<rparr>,
                                  session_add \<lparr>release_id = rid, tag = tag_name, repository = repo,
                                       event = event_id ev, status = RECEIVED\<rparr> w1))
                          else (Inl (RepositoryDisabledError repo), w1))))))"

text \<open>\<^verbatim>\<open>current_app.config.get("GITHUB_ASYNC_MODE", True)\<close>.\<close>

definition async_mode :: "env \<Rightarrow> json" where
  "async_mode env = (case config env ''GITHUB_ASYNC_MODE'' of None \<Rightarrow> JBool True | Some v \<Rightarrow> v)"

text \<open>\<^verbatim>\<open>del state[event_release_id]\<close>.\<close>

definition unlock :: "json \<Rightarrow> world \<Rightarrow> exn option \<times> world" where
  "unlock rid w =
     (if state w (dict_key rid) = None then (Some (KeyError ''state''), w)
      else (None, w\<lparr>state := (state w)(dict_key rid := None)\<rparr>))"

text \<open>Lines 133 to 144: process the release, then unlock.\<close>

definition dispatch :: "env \<Rightarrow> json \<Rightarrow> release \<Rightarrow> world \<Rightarrow> exn option \<times> world" where
  "dispatch env rid r w =
     (if py_truthy (async_mode env) then
        (case session_commit env w of
           (Some e, w1) \<Rightarrow> (Some e, w1)
         | (None, w1) \<Rightarrow>
            (case process_release_delay env (release_id r) w1 of
               (Some e, w2) \<Rightarrow> (Some e, w2)
             | (None, w2) \<Rightarrow> unlock rid w2))
      else
        (case process_release_now env r w of
           (Some e, w1) \<Rightarrow> (Some e, w1)
         | (None, w1) \<Rightarrow> unlock rid w1))"

text \<open>The body of the \<^verbatim>\<open>try\<close> block of \<^verbatim>\<open>_handle_create_release\<close>, lines 122 to 144:
  the exception that leaves it, if any, and the world as it is then.\<close>

definition try_create_release :: "env \<Rightarrow> event \<Rightarrow> world \<Rightarrow> exn option \<times> world" where
  "try_create_release env ev w =
     (case py_getitem2 (payload ev) ''release'' ''id'' of
        Inl e \<Rightarrow> (Some e, w)
      | Inr event_release_id \<Rightarrow>
          if hashable event_release_id then
            (if state w (dict_key event_release_id) = None then
               (case create_release env ev
                       (w\<lparr>state := (state w)(dict_key event_release_id \<mapsto> event_id ev)\<rparr>) of
                  (Inl e, w1) \<Rightarrow> (Some e, w1)
                | (Inr r, w1) \<Rightarrow> dispatch env event_release_id r w1)
             else (Some (ReleaseAlreadyReceivedError None), w))
          else (Some (TypeError ''unhashable''), w))"

text \<open>The assignment of a response: \<^verbatim>\<open>event.response_code = c\<close> and
  \<^verbatim>\<open>event.response = dict(message=str(e), status=c)\<close>.\<close>

definition respond :: "env \<Rightarrow> int \<Rightarrow> exn \<Rightarrow> world \<Rightarrow> event \<Rightarrow> exn option \<times> world \<times> event" where
  "respond env c e w ev =
     (None, log (ResponseWrite c) w,
      ev\<lparr>response := JObj [(''message'', JStr (str_exn env e)), (''status'', JInt c)],
         response_code := Some c\<rparr>)"

text \<open>The three \<^verbatim>\<open>except\<close> clauses of \<^verbatim>\<open>_handle_create_release\<close>, in their order.\<close>

fun handler_code :: "exn \<Rightarrow> int option" where
  "handler_code (ReleaseAlreadyReceivedError r) = Some 409"
| "handler_code (RepositoryDisabledError r) = Some 409"
| "handler_code (SQLAlchemyError m) = Some 409"
| "handler_code (RepositoryAccessError m) = Some 403"
| "handler_code (InvalidSenderError m) = Some 403"
| "handler_code (RepositoryNotFoundError n) = Some 404"
| "handler_code _ = None"

text \<open>\<^verbatim>\<open>_handle_create_release(event)\<close>, lines 85 to 158.\<close>

definition handle_create_release :: "env \<Rightarrow> event \<Rightarrow> world \<Rightarrow> exn option \<times> world \<times> event" where
  "handle_create_release env ev w =
     (case try_create_release env ev w of
        (None, w1) \<Rightarrow> (None, w1, ev)
      | (Some e, w1) \<Rightarrow>
         (case handler_code e of
            Some c \<Rightarrow> respond env c e w1 ev
          | None \<Rightarrow> (Some e, w1, ev)))"

text \<open>Lines 71 to 77 of \<^verbatim>\<open>_handle_event\<close>: the classification of the event.\<close>

definition is_create_release_event :: "json \<Rightarrow> exn + bool" where
  "is_create_release_event p =
     (case py_get p ''action'' JNull of
        Inl e \<Rightarrow> Inl e
      | Inr action \<Rightarrow>
         (case py_get p ''release'' (JObj []) of
            Inl e \<Rightarrow> Inl e
          | Inr rel \<Rightarrow>
             (case py_get rel ''draft'' JNull of
                Inl e \<Rightarrow> Inl e
              | Inr is_draft_release \<Rightarrow>
                  Inr (action \<in> set [JStr ''published'', JStr ''released'', JStr ''created'']
                       \<and> \<not> py_truthy is_draft_release))))"

text \<open>\<^verbatim>\<open>_handle_event(event)\<close>, lines 69 to 83.\<close>

definition handle_event :: "env \<Rightarrow> event \<Rightarrow> world \<Rightarrow> exn option \<times> world \<times> event" where
  "handle_event env ev w =
     (case is_create_release_event (payload ev) of
        Inl e \<Rightarrow> (Some e, w, ev)
      | Inr True \<Rightarrow> handle_create_release env ev w
      | Inr False \<Rightarrow> (None, w, ev))"

text \<open>\<^verbatim>\<open>run(event)\<close>, lines 51 to 67. \<^verbatim>\<open>event.response_code < 400\<close> is evaluated only
  when \<^verbatim>\<open>event.response\<close> is truthy, and comparing \<^verbatim>\<open>None\<close> with a number raises.\<close>

definition run :: "env \<Rightarrow> event \<Rightarrow> world \<Rightarrow> exn option \<times> world \<times> event" where
  "run env ev w =
     (case handle_event env ev w of
        (None, w1, ev1) \<Rightarrow> (None, w1, ev1)
      | (Some e, w1, ev1) \<Rightarrow>
          if py_truthy (response ev1) then
            (case response_code ev1 of
               None \<Rightarrow> (Some (TypeError ''<''), w1, ev1)
             | Some c \<Rightarrow>
                 if c < 400 then
                   (None, log (ResponseWrite 500) w1,
                    ev1\<lparr>response := JObj [(''status'', JInt 500), (''message'', JStr (str_exn env e))],
                        response_code := Some 500\<rparr>)
                 else (None, w1, ev1))
          else
            (None, log (ResponseWrite 500) w1,
             ev1\<lparr>response := JObj [(''status'', JInt 500), (''message'', JStr (str_exn env e))],
                 response_code := Some 500\<rparr>))"

subsection \<open>Counting what was written\<close>

text \<open>The number of response assignments in a log.\<close>

fun response_writes :: "effect list \<Rightarrow> nat" where
  "response_writes [] = 0"
| "response_writes (ResponseWrite c # xs) = Suc (response_writes xs)"
| "response_writes (x # xs) = response_writes xs"

subsection \<open>Concrete inputs\<close>

text \<open>A registry with the enabled repository 7 and the disabled repository 8, no
  configuration (so the default mode), and collaborators that do not fail.\<close>

definition lib_repo :: repository where
  "lib_repo = \<lparr>github_id = JInt 7, name = JStr ''lib'', enabled = True\<rparr>"

definition old_repo :: repository where
  "old_repo = \<lparr>github_id = JInt 8, name = JStr ''old'', enabled = False\<rparr>"

definition example_env :: env where
  "example_env =
     \<lparr>config = Map.empty,
      query_raises = None,
      repository_get = (\<lambda>i n. if i = JInt 7 then RepoFound lib_repo
                               else if i = JInt 8 then RepoFound old_repo
                               else RepoNoResultFound),
      commit_raises = None,
      delay_raises = None,
      process_release_sync = (\<lambda>r rs ss. (None, rs, ss)),
      str_exn = (\<lambda>e. ''failed'')\<rparr>"

text \<open>The same, with a commit that loses a race.\<close>

definition racing_env :: env where
  "racing_env = example_env\<lparr>commit_raises := Some (SQLAlchemyError ''IntegrityError'')\<rparr>"

definition empty_world :: world where
  "empty_world = \<lparr>state = Map.empty, releases = [], session_new = [], task_queue = [], trace = []\<rparr>"

text \<open>A release event for release \<open>rid\<close> of repository \<open>repo\<close>.\<close>

definition release_payload :: "string \<Rightarrow> int \<Rightarrow> int \<Rightarrow> json" where
  "release_payload action rid repo =
     JObj [(''action'', JStr action),
           (''release'', JObj [(''id'', JInt rid), (''tag_name'', JStr ''v1.0'')]),
           (''repository'', JObj [(''id'', JInt repo), (''name'', JStr ''lib'')])]"

definition fresh_event :: "nat \<Rightarrow> json \<Rightarrow> event" where
  "fresh_event i p = \<lparr>event_id = i, payload = p, response = JNull, response_code = None\<rparr>"

text \<open>The release 42 of the enabled repository, as the first delivery stores it.\<close>

definition release_42 :: release where
  "release_42 = \<lparr>release_id = JInt 42, tag = JStr ''v1.0'', repository = lib_repo, event = 1,
                  status = RECEIVED\<rparr>"

text \<open>A ping (no action, no release), a draft release, and an event with a creating
  action and no \<^verbatim>\<open>release\<close> object.\<close>

definition ping_payload :: json where
  "ping_payload = JObj [(''zen'', JStr ''Keep it logically awesome.''), (''hook_id'', JInt 1)]"

definition draft_payload :: json where
  "draft_payload =
     JObj [(''action'', JStr ''created''),
           (''release'', JObj [(''id'', JInt 43), (''tag_name'', JStr ''v2.0''),
                               (''draft'', JBool True)]),
           (''repository'', JObj [(''id'', JInt 7), (''name'', JStr ''lib'')])]"

definition bare_payload :: json where
  "bare_payload = JObj [(''action'', JStr ''created'')]"

text \<open>An event that arrives with a response already set, with a code below 400.\<close>

definition accepted_event :: "nat \<Rightarrow> json \<Rightarrow> event" where
  "accepted_event i p =
     \<lparr>event_id = i, payload = p,
      response = JObj [(''status'', JInt 202), (''message'', JStr ''Accepted.'')],
      response_code = Some 202\<rparr>"

section \<open>What the collaborators' calls leave untouched\<close>

lemma response_writes_append [simp]:
  "response_writes (xs @ ys) = response_writes xs + response_writes ys"
  by (induction xs rule: response_writes.induct) auto

lemma create_release_frame:
  "create_release env ev w = (x, w1) \<Longrightarrow>
   state w1 = state w \<and> releases w1 = releases w \<and> task_queue w1 = task_queue w \<and>
   response_writes (trace w1) = response_writes (trace w)"
  by (auto simp: create_release_def release_query_first_def session_add_def log_def
      split: sum.splits option.splits repo_result.splits if_splits prod.splits)

lemma create_release_ok:
  "create_release env ev w = (Inr r, w1) \<Longrightarrow>
   py_getitem2 (payload ev) ''release'' ''id'' = Inr (release_id r) \<and>
   query_raises env = None \<and>
   find (\<lambda>x. release_id x = release_id r) (releases w) = None \<and>
   status r = RECEIVED \<and> event r = event_id ev \<and> enabled (repository r) \<and>
   py_getitem2 (payload ev) ''release'' ''tag_name'' = Inr (tag r) \<and>
   w1 = session_add r (log (StoreQuery (release_id r)) w)"
  by (auto simp: create_release_def release_query_first_def
      split: sum.splits option.splits repo_result.splits if_splits prod.splits)

lemma dispatch_frame:
  "dispatch env rid r w = (x, w1) \<Longrightarrow>
   response_writes (trace w1) = response_writes (trace w)"
  by (auto simp: dispatch_def session_commit_def process_release_delay_def
        process_release_now_def unlock_def log_def
      split: sum.splits option.splits if_splits prod.splits)

lemma dispatch_err_state:
  "dispatch env rid r w = (Some e, w1) \<Longrightarrow> state w (dict_key rid) \<noteq> None \<Longrightarrow>
   state w1 = state w"
  by (auto simp: dispatch_def session_commit_def process_release_delay_def
        process_release_now_def unlock_def log_def
      split: sum.splits option.splits if_splits prod.splits)

lemma dispatch_ok_state:
  "dispatch env rid r w = (None, w1) \<Longrightarrow> state w1 = (state w)(dict_key rid := None)"
  by (auto simp: dispatch_def session_commit_def process_release_delay_def
        process_release_now_def unlock_def log_def
      split: sum.splits option.splits if_splits prod.splits)

lemma try_create_release_writes:
  "try_create_release env ev w = (x, w1) \<Longrightarrow>
   response_writes (trace w1) = response_writes (trace w)"
  apply (auto simp: try_create_release_def split: prod.splits sum.splits if_splits)
   apply (drule create_release_frame, simp)
  apply (drule create_release_frame, drule dispatch_frame, simp)
  done

lemma lock_kept_when_admission_fails:
  "py_getitem2 (payload ev) ''release'' ''id'' = Inr rid \<Longrightarrow> hashable rid \<Longrightarrow>
   state w (dict_key rid) = None \<Longrightarrow> try_create_release env ev w = (Some e, w1) \<Longrightarrow>
   state w1 = (state w)(dict_key rid \<mapsto> event_id ev)"
  apply (auto simp: try_create_release_def split: prod.splits sum.splits)
   apply (drule create_release_frame, simp)
  apply (frule create_release_frame)
  apply (drule dispatch_err_state)
   apply auto
  done

lemma lock_released_when_admission_succeeds:
  "py_getitem2 (payload ev) ''release'' ''id'' = Inr rid \<Longrightarrow>
   try_create_release env ev w = (None, w1) \<Longrightarrow> state w1 = state w"
  apply (auto simp: try_create_release_def split: prod.splits sum.splits if_splits)
  apply (frule create_release_frame)
  apply (drule dispatch_ok_state)
  apply (auto simp: fun_upd_idem)
  done

lemma handle_create_release_raises:
  "handle_create_release env ev w = (Some e, w1, ev1) \<Longrightarrow>
   ev1 = ev \<and> handler_code e = None \<and> try_create_release env ev w = (Some e, w1)"
  by (auto simp: handle_create_release_def respond_def split: prod.splits option.splits)

lemma handle_event_raises:
  "handle_event env ev w = (Some e, w1, ev1) \<Longrightarrow> ev1 = ev"
  by (auto simp: handle_event_def split: sum.splits bool.splits if_splits
      dest: handle_create_release_raises)


section \<open>Unfolding the model on concrete inputs\<close>

lemmas receiver_defs =
  run_def handle_event_def is_create_release_event_def handle_create_release_def
  respond_def try_create_release_def dispatch_def unlock_def async_mode_def
  create_release_def process_release_now_def process_release_delay_def
  session_commit_def session_add_def release_query_first_def log_def py_getitem2_def

lemmas example_defs =
  example_env_def racing_env_def empty_world_def release_payload_def fresh_event_def
  release_42_def lib_repo_def old_repo_def ping_payload_def draft_payload_def bare_payload_def
  accepted_event_def

section \<open>The admission lock\<close>

text \<open>
  \<^bold>\<open>C1\<close>: the spec asks that the entry of the release id is removed from \<^verbatim>\<open>state\<close>
  before \<^verbatim>\<open>_handle_create_release\<close> returns, on success and on every failure after the
  entry was inserted. The source deletes the entry only as the last statement of the
  \<^verbatim>\<open>try\<close> block (\<open>lock_released_when_admission_succeeds\<close>); every exception raised after
  the insertion skips it, and no \<^verbatim>\<open>except\<close> clause deletes it
  (\<open>lock_kept_when_admission_fails\<close>). Evaluated here: a delivery for release 42 of the
  unregistered repository 9 is answered 404 and leaves 42 in \<^verbatim>\<open>state\<close>; the same delivery
  again is then answered 409 by the lock check instead of 404.
\<close>

theorem lock_left_after_failed_admission:
  "case handle_create_release example_env
          (fresh_event 1 (release_payload ''published'' 42 9)) empty_world of
     (x, w, e) \<Rightarrow>
       x = None \<and> response_code e = Some 404 \<and> state w (JInt 42) = Some 1 \<and>
       response_code (snd (snd (handle_create_release example_env
          (fresh_event 2 (release_payload ''published'' 42 9)) w))) = Some 409"
  by (simp add: receiver_defs example_defs)

section \<open>Duplicates\<close>

text \<open>
  \<^bold>\<open>C2\<close>: for a creation event with release id \<open>rid\<close>, each trigger of the duplicate
  detection makes \<^verbatim>\<open>_handle_create_release\<close> return normally with response code 409 and
  status 409 on the event, and the committed rows are the ones from before:
  \<^item> \<open>rid\<close> is in \<^verbatim>\<open>state\<close>: only the response is written; the log gains no store query;
  \<^item> the store holds a row \<open>old\<close> with that id: the log gains the query and the response;
  \<^item> the admission reached \<^verbatim>\<open>db.session.commit()\<close> in asynchronous mode and the commit
    raised an \<^verbatim>\<open>SQLAlchemyError\<close>: nothing was committed and nothing enqueued.
\<close>

theorem duplicate_release_gets_409:
  assumes "py_getitem2 (payload ev) ''release'' ''id'' = Inr rid" and "hashable rid"
  shows
    "(state w (dict_key rid) \<noteq> None \<longrightarrow>
        handle_create_release env ev w =
          (None, w\<lparr>trace := trace w @ [ResponseWrite 409]\<rparr>,
           ev\<lparr>response := JObj [(''message'', JStr (str_exn env (ReleaseAlreadyReceivedError None))),
                                (''status'', JInt 409)],
              response_code := Some 409\<rparr>))
   \<and> (state w (dict_key rid) = None \<and> query_raises env = None \<and>
        find (\<lambda>r. release_id r = rid) (releases w) = Some old \<longrightarrow>
        handle_create_release env ev w =
          (None, w\<lparr>state := (state w)(dict_key rid \<mapsto> event_id ev),
                    trace := trace w @ [StoreQuery rid, ResponseWrite 409]\<rparr>,
           ev\<lparr>response := JObj [(''message'', JStr (str_exn env (ReleaseAlreadyReceivedError (Some old)))),
                                (''status'', JInt 409)],
              response_code := Some 409\<rparr>))
   \<and> (state w (dict_key rid) = None \<and> py_truthy (async_mode env) \<and>
        create_release env ev (w\<lparr>state := (state w)(dict_key rid \<mapsto> event_id ev)\<rparr>) = (Inr r, w1) \<and>
        session_commit env w1 = (Some (SQLAlchemyError m), w2) \<longrightarrow>
        handle_create_release env ev w =
          (None, w2\<lparr>trace := trace w2 @ [ResponseWrite 409]\<rparr>,
           ev\<lparr>response := JObj [(''message'', JStr (str_exn env (SQLAlchemyError m))),
                                (''status'', JInt 409)],
              response_code := Some 409\<rparr>)
        \<and> releases w2 = releases w \<and> task_queue w2 = task_queue w)"
proof (intro conjI impI)
  assume "state w (dict_key rid) \<noteq> None"
  with assms show "handle_create_release env ev w =
          (None, w\<lparr>trace := trace w @ [ResponseWrite 409]\<rparr>,
           ev\<lparr>response := JObj [(''message'', JStr (str_exn env (ReleaseAlreadyReceivedError None))),
                                (''status'', JInt 409)],
              response_code := Some 409\<rparr>)"
    by (auto simp: handle_create_release_def try_create_release_def respond_def log_def)
next
  assume "state w (dict_key rid) = None \<and> query_raises env = None \<and>
        find (\<lambda>r. release_id r = rid) (releases w) = Some old"
  with assms show "handle_create_release env ev w =
          (None, w\<lparr>state := (state w)(dict_key rid \<mapsto> event_id ev),
                    trace := trace w @ [StoreQuery rid, ResponseWrite 409]\<rparr>,
           ev\<lparr>response := JObj [(''message'', JStr (str_exn env (ReleaseAlreadyReceivedError (Some old)))),
                                (''status'', JInt 409)],
              response_code := Some 409\<rparr>)"
    by (simp add: handle_create_release_def try_create_release_def respond_def log_def
        create_release_def release_query_first_def)
next
  assume a: "state w (dict_key rid) = None \<and> py_truthy (async_mode env) \<and>
        create_release env ev (w\<lparr>state := (state w)(dict_key rid \<mapsto> event_id ev)\<rparr>) = (Inr r, w1) \<and>
        session_commit env w1 = (Some (SQLAlchemyError m), w2)"
  with assms show "handle_create_release env ev w =
          (None, w2\<lparr>trace := trace w2 @ [ResponseWrite 409]\<rparr>,
           ev\<lparr>response := JObj [(''message'', JStr (str_exn env (SQLAlchemyError m))),
                                (''status'', JInt 409)],
              response_code := Some 409\<rparr>)"
    by (simp add: handle_create_release_def try_create_release_def respond_def log_def
        dispatch_def)
  from a have "releases w1 = releases w" "task_queue w1 = task_queue w"
    by (auto dest: create_release_frame)
  moreover from a have "releases w2 = releases w1 \<and> task_queue w2 = task_queue w1"
    by (auto simp: session_commit_def log_def split: option.splits if_splits)
  ultimately show "releases w2 = releases w" "task_queue w2 = task_queue w" by simp_all
qed


theorem duplicate_release_gets_409_witness:
  "response_code (snd (snd (handle_create_release example_env
       (fresh_event 2 (release_payload ''published'' 42 7))
       (empty_world\<lparr>state := [JInt 42 \<mapsto> 1]\<rparr>)))) = Some 409
   \<and> trace (fst (snd (handle_create_release example_env
       (fresh_event 2 (release_payload ''published'' 42 7))
       (empty_world\<lparr>state := [JInt 42 \<mapsto> 1]\<rparr>)))) = [ResponseWrite 409]
   \<and> response_code (snd (snd (handle_create_release example_env
       (fresh_event 2 (release_payload ''published'' 42 7))
       (empty_world\<lparr>releases := [release_42]\<rparr>)))) = Some 409
   \<and> releases (fst (snd (handle_create_release example_env
       (fresh_event 2 (release_payload ''published'' 42 7))
       (empty_world\<lparr>releases := [release_42]\<rparr>)))) = [release_42]
   \<and> response_code (snd (snd (handle_create_release racing_env
       (fresh_event 1 (release_payload ''published'' 42 7)) empty_world))) = Some 409
   \<and> releases (fst (snd (handle_create_release racing_env
       (fresh_event 1 (release_payload ''published'' 42 7)) empty_world))) = []"
proof -
  let ?ev2 = "fresh_event 2 (release_payload ''published'' 42 7)"
  let ?ev1 = "fresh_event 1 (release_payload ''published'' 42 7)"
  let ?w1 = "snd (create_release racing_env ?ev1 (empty_world\<lparr>state := [JInt 42 \<mapsto> 1]\<rparr>))"
  have h2: "py_getitem2 (payload ?ev2) ''release'' ''id'' = Inr (JInt 42)"
    by (simp add: py_getitem2_def example_defs)
  have h1: "py_getitem2 (payload ?ev1) ''release'' ''id'' = Inr (JInt 42)"
    by (simp add: py_getitem2_def example_defs)
  have k: "hashable (JInt 42)" by simp
  have a: "handle_create_release example_env ?ev2 (empty_world\<lparr>state := [JInt 42 \<mapsto> 1]\<rparr>) =
      (None, empty_world\<lparr>state := [JInt 42 \<mapsto> 1], trace := [ResponseWrite 409]\<rparr>,
       ?ev2\<lparr>response := JObj [(''message'', JStr ''failed''), (''status'', JInt 409)],
            response_code := Some 409\<rparr>)"
    using duplicate_release_gets_409 [OF h2 k, where w = "empty_world\<lparr>state := [JInt 42 \<mapsto> 1]\<rparr>"
        and env = example_env, THEN conjunct1]
    by (simp add: example_defs)
  have b: "handle_create_release example_env ?ev2 (empty_world\<lparr>releases := [release_42]\<rparr>) =
      (None, empty_world\<lparr>releases := [release_42], state := [JInt 42 \<mapsto> 2],
                         trace := [StoreQuery (JInt 42), ResponseWrite 409]\<rparr>,
       ?ev2\<lparr>response := JObj [(''message'', JStr ''failed''), (''status'', JInt 409)],
            response_code := Some 409\<rparr>)"
    using duplicate_release_gets_409 [OF h2 k, where w = "empty_world\<lparr>releases := [release_42]\<rparr>"
        and env = example_env and old = release_42, THEN conjunct2, THEN conjunct1]
    by (simp add: example_defs)
  have c: "handle_create_release racing_env ?ev1 empty_world =
      (None, (snd (session_commit racing_env ?w1))\<lparr>trace := trace (snd (session_commit racing_env ?w1)) @ [ResponseWrite 409]\<rparr>,
       ?ev1\<lparr>response := JObj [(''message'', JStr ''failed''), (''status'', JInt 409)],
            response_code := Some 409\<rparr>)
      \<and> releases (snd (session_commit racing_env ?w1)) = []"
    using duplicate_release_gets_409 [OF h1 k, where w = empty_world
        and env = racing_env and r = release_42 and ?w1.0 = ?w1 and m = "''IntegrityError''"
        and ?w2.0 = "snd (session_commit racing_env ?w1)", THEN conjunct2, THEN conjunct2]
    by (simp add: example_defs receiver_defs)
  from a b c show ?thesis by simp
qed


section \<open>Repository errors\<close>

text \<open>
  \<^bold>\<open>C7\<close>: a creation event whose repository lookup finds a disabled repository is
  answered 409, never 403, and no row is committed, staged or enqueued. The premises say
  that the payload names a release id and a repository id and name, that the store query
  itself does not fail, and that \<^verbatim>\<open>Repository.get\<close> returns a repository that is not
  enabled. The answer is 409 also when the duplicate checks stop the admission first; when
  they do not, the error is \<^verbatim>\<open>RepositoryDisabledError\<close>.
\<close>

theorem disabled_repository_gets_409:
  assumes "py_getitem2 (payload ev) ''release'' ''id'' = Inr rid" and "hashable rid"
    and "query_raises env = None"
    and "py_getitem2 (payload ev) ''repository'' ''id'' = Inr repo_id"
    and "py_getitem2 (payload ev) ''repository'' ''name'' = Inr repo_name"
    and "repository_get env repo_id repo_name = RepoFound repo"
    and "\<not> enabled repo"
  shows "\<exists>w' e. handle_create_release env ev w =
            (None, w',
             ev\<lparr>response := JObj [(''message'', JStr (str_exn env e)), (''status'', JInt 409)],
                response_code := Some 409\<rparr>)
          \<and> releases w' = releases w \<and> session_new w' = session_new w
          \<and> task_queue w' = task_queue w
          \<and> (state w (dict_key rid) = None \<and>
               find (\<lambda>r. release_id r = rid) (releases w) = None
               \<longrightarrow> e = RepositoryDisabledError repo)"
proof (cases "state w (dict_key rid)")
  case (Some i)
  with assms show ?thesis
    by (fastforce simp: handle_create_release_def try_create_release_def respond_def log_def)
next
  case None
  show ?thesis
  proof (cases "find (\<lambda>r. release_id r = rid) (releases w)")
    case (Some old)
    with None assms show ?thesis
      by (fastforce simp: handle_create_release_def try_create_release_def respond_def log_def
          create_release_def release_query_first_def)
  next
    case no_old: None
    with None assms show ?thesis
      by (fastforce simp: handle_create_release_def try_create_release_def respond_def log_def
          create_release_def release_query_first_def)
  qed
qed

theorem disabled_repository_gets_409_witness:
  "handle_create_release example_env (fresh_event 1 (release_payload ''published'' 42 8)) empty_world =
     (None, empty_world\<lparr>state := [JInt 42 \<mapsto> 1], trace := [StoreQuery (JInt 42), ResponseWrite 409]\<rparr>,
      (fresh_event 1 (release_payload ''published'' 42 8))
        \<lparr>response := JObj [(''message'', JStr ''failed''), (''status'', JInt 409)],
         response_code := Some 409\<rparr>)"
proof -
  let ?ev = "fresh_event 1 (release_payload ''published'' 42 8)"
  have h: "py_getitem2 (payload ?ev) ''release'' ''id'' = Inr (JInt 42)"
    "hashable (JInt 42)" "query_raises example_env = None"
    "py_getitem2 (payload ?ev) ''repository'' ''id'' = Inr (JInt 8)"
    "py_getitem2 (payload ?ev) ''repository'' ''name'' = Inr (JStr ''lib'')"
    "repository_get example_env (JInt 8) (JStr ''lib'') = RepoFound old_repo"
    "\<not> enabled old_repo"
    by (simp_all add: py_getitem2_def example_defs)
  from disabled_repository_gets_409 [OF h, of empty_world]
  obtain w' e where
    "handle_create_release example_env ?ev empty_world =
       (None, w', ?ev\<lparr>response := JObj [(''message'', JStr (str_exn example_env e)), (''status'', JInt 409)],
                       response_code := Some 409\<rparr>)"
    by blast
  then show ?thesis
    by (simp add: example_defs receiver_defs)
qed




section \<open>Classification\<close>

lemma classification_of_object:
  "is_create_release_event (JObj kvs) =
     (case py_get (case map_of kvs ''release'' of None \<Rightarrow> JObj [] | Some v \<Rightarrow> v) ''draft'' JNull of
        Inl e \<Rightarrow> Inl e
      | Inr d \<Rightarrow>
          Inr ((case map_of kvs ''action'' of None \<Rightarrow> JNull | Some a \<Rightarrow> a)
                 \<in> {JStr ''published'', JStr ''released'', JStr ''created''}
               \<and> \<not> py_truthy d))"
  by (simp add: is_create_release_event_def split: sum.splits)

lemma classification_needs_object:
  "is_create_release_event p = Inr b \<Longrightarrow> \<exists>kvs. p = JObj kvs"
  by (cases p) (simp_all add: is_create_release_event_def)

lemma py_get_Inr:
  "py_get j k d = Inr v \<Longrightarrow> \<exists>kvs. j = JObj kvs"
  by (cases j) simp_all

text \<open>
  \<^bold>\<open>C3\<close>: the release-creation path is taken exactly for the events whose payload is an
  object with an action among \<^verbatim>\<open>published\<close>, \<^verbatim>\<open>released\<close>, \<^verbatim>\<open>created\<close> and a draft flag
  that reads falsy (the flag of the \<^verbatim>\<open>release\<close> object, \<^verbatim>\<open>None\<close> when that object or the
  flag is absent); then \<^verbatim>\<open>_handle_event\<close> is \<^verbatim>\<open>_handle_create_release\<close>. For every other
  event \<^verbatim>\<open>_handle_event\<close> leaves the world and the event as they were: no response, no
  entry in \<^verbatim>\<open>state\<close>, no row. When the classification itself evaluates (the payload is
  an object whose \<^verbatim>\<open>release\<close> member, if there is one, is an object), such an event is
  dropped without an exception, by \<^verbatim>\<open>run\<close> as well.
\<close>

theorem creation_event_classification:
  "(is_create_release_event (payload ev) = Inr True \<longleftrightarrow>
      (\<exists>kvs rel. payload ev = JObj kvs
         \<and> (case map_of kvs ''action'' of None \<Rightarrow> JNull | Some a \<Rightarrow> a)
              \<in> {JStr ''published'', JStr ''released'', JStr ''created''}
         \<and> (case map_of kvs ''release'' of None \<Rightarrow> JObj [] | Some v \<Rightarrow> v) = JObj rel
         \<and> \<not> py_truthy (case map_of rel ''draft'' of None \<Rightarrow> JNull | Some d \<Rightarrow> d)))
   \<and> (is_create_release_event (payload ev) = Inr True \<longrightarrow>
        handle_event env ev w = handle_create_release env ev w)
   \<and> (is_create_release_event (payload ev) \<noteq> Inr True \<longrightarrow>
        snd (handle_event env ev w) = (w, ev))
   \<and> (is_create_release_event (payload ev) = Inr False \<longrightarrow>
        handle_event env ev w = (None, w, ev) \<and> run env ev w = (None, w, ev))
   \<and> (\<forall>kvs rel. payload ev = JObj kvs
         \<and> (case map_of kvs ''release'' of None \<Rightarrow> JObj [] | Some v \<Rightarrow> v) = JObj rel \<longrightarrow>
        (\<exists>b. is_create_release_event (payload ev) = Inr b))"
proof (intro conjI impI allI)
  show "is_create_release_event (payload ev) = Inr True \<longleftrightarrow>
      (\<exists>kvs rel. payload ev = JObj kvs
         \<and> (case map_of kvs ''action'' of None \<Rightarrow> JNull | Some a \<Rightarrow> a)
              \<in> {JStr ''published'', JStr ''released'', JStr ''created''}
         \<and> (case map_of kvs ''release'' of None \<Rightarrow> JObj [] | Some v \<Rightarrow> v) = JObj rel
         \<and> \<not> py_truthy (case map_of rel ''draft'' of None \<Rightarrow> JNull | Some d \<Rightarrow> d))"
    (is "?L \<longleftrightarrow> ?R")
  proof
    assume l: ?L
    then obtain kvs where p: "payload ev = JObj kvs"
      by (blast dest: classification_needs_object)
    from l p obtain d where
      d: "py_get (case map_of kvs ''release'' of None \<Rightarrow> JObj [] | Some v \<Rightarrow> v) ''draft'' JNull = Inr d"
      by (auto simp: classification_of_object split: sum.splits)
    then obtain rel where
      rel: "(case map_of kvs ''release'' of None \<Rightarrow> JObj [] | Some v \<Rightarrow> v) = JObj rel"
      by (blast dest: py_get_Inr)
    from l p d rel show ?R
      by (auto simp: classification_of_object)
  next
    assume ?R
    then show ?L
      by (auto simp: classification_of_object)
  qed
next
  assume "is_create_release_event (payload ev) = Inr True"
  then show "handle_event env ev w = handle_create_release env ev w"
    by (simp add: handle_event_def)
next
  assume "is_create_release_event (payload ev) \<noteq> Inr True"
  then show "snd (handle_event env ev w) = (w, ev)"
    by (auto simp: handle_event_def split: sum.splits bool.splits)
next
  assume a: "is_create_release_event (payload ev) = Inr False"
  then show "handle_event env ev w = (None, w, ev)"
    by (simp add: handle_event_def)
  with a show "run env ev w = (None, w, ev)"
    by (simp add: run_def)
next
  fix kvs rel
  assume "payload ev = JObj kvs
         \<and> (case map_of kvs ''release'' of None \<Rightarrow> JObj [] | Some v \<Rightarrow> v) = JObj rel"
  then show "\<exists>b. is_create_release_event (payload ev) = Inr b"
    by (simp add: classification_of_object)
qed


theorem creation_event_classification_witness:
  "handle_event example_env (fresh_event 1 (release_payload ''published'' 42 7)) empty_world =
     handle_create_release example_env (fresh_event 1 (release_payload ''published'' 42 7)) empty_world
   \<and> run example_env (fresh_event 2 ping_payload) empty_world =
       (None, empty_world, fresh_event 2 ping_payload)
   \<and> run example_env (fresh_event 3 draft_payload) empty_world =
       (None, empty_world, fresh_event 3 draft_payload)
   \<and> run example_env (fresh_event 4 (release_payload ''edited'' 42 7)) empty_world =
       (None, empty_world, fresh_event 4 (release_payload ''edited'' 42 7))"
proof -
  have c: "is_create_release_event (payload (fresh_event 1 (release_payload ''published'' 42 7))) = Inr True"
    by (simp add: is_create_release_event_def example_defs)
  have p: "is_create_release_event (payload (fresh_event 2 ping_payload)) = Inr False"
    by (simp add: is_create_release_event_def example_defs)
  have d: "is_create_release_event (payload (fresh_event 3 draft_payload)) = Inr False"
    by (simp add: is_create_release_event_def example_defs)
  have e: "is_create_release_event (payload (fresh_event 4 (release_payload ''edited'' 42 7))) = Inr False"
    by (simp add: is_create_release_event_def example_defs)
  from c creation_event_classification
         [of "fresh_event 1 (release_payload ''published'' 42 7)" example_env empty_world]
  have 1: "handle_event example_env (fresh_event 1 (release_payload ''published'' 42 7)) empty_world =
     handle_create_release example_env (fresh_event 1 (release_payload ''published'' 42 7)) empty_world"
    by blast
  from p creation_event_classification [of "fresh_event 2 ping_payload" example_env empty_world]
  have 2: "run example_env (fresh_event 2 ping_payload) empty_world =
       (None, empty_world, fresh_event 2 ping_payload)"
    by blast
  from d creation_event_classification [of "fresh_event 3 draft_payload" example_env empty_world]
  have 3: "run example_env (fresh_event 3 draft_payload) empty_world =
       (None, empty_world, fresh_event 3 draft_payload)"
    by blast
  from e creation_event_classification
         [of "fresh_event 4 (release_payload ''edited'' 42 7)" example_env empty_world]
  have 4: "run example_env (fresh_event 4 (release_payload ''edited'' 42 7)) empty_world =
       (None, empty_world, fresh_event 4 (release_payload ''edited'' 42 7))"
    by blast
  from 1 2 3 4 show ?thesis by blast
qed

text \<open>
  \<^bold>\<open>C10\<close>: an event whose action is \<^verbatim>\<open>published\<close>, \<^verbatim>\<open>released\<close> or \<^verbatim>\<open>created\<close> and
  whose payload has no \<^verbatim>\<open>release\<close> member, or a \<^verbatim>\<open>release\<close> object with no \<^verbatim>\<open>draft\<close>
  key, is classified as a creation event, and \<^verbatim>\<open>_handle_event\<close> calls
  \<^verbatim>\<open>_handle_create_release\<close>.
\<close>

theorem absent_draft_flag_is_not_draft:
  assumes "payload ev = JObj kvs"
    and "map_of kvs ''action'' = Some a"
    and "a \<in> {JStr ''published'', JStr ''released'', JStr ''created''}"
    and "map_of kvs ''release'' = None
         \<or> (\<exists>rel. map_of kvs ''release'' = Some (JObj rel) \<and> map_of rel ''draft'' = None)"
  shows "py_get (case map_of kvs ''release'' of None \<Rightarrow> JObj [] | Some v \<Rightarrow> v) ''draft'' JNull = Inr JNull
       \<and> is_create_release_event (payload ev) = Inr True
       \<and> handle_event env ev w = handle_create_release env ev w"
  using assms
  by (auto simp: handle_event_def classification_of_object)

theorem absent_draft_flag_is_not_draft_witness:
  "handle_event example_env (fresh_event 1 bare_payload) empty_world =
     handle_create_release example_env (fresh_event 1 bare_payload) empty_world
   \<and> handle_event example_env (fresh_event 1 (release_payload ''released'' 42 7)) empty_world =
     handle_create_release example_env (fresh_event 1 (release_payload ''released'' 42 7)) empty_world"
proof -
  have 1: "handle_event example_env (fresh_event 1 bare_payload) empty_world =
     handle_create_release example_env (fresh_event 1 bare_payload) empty_world"
    using absent_draft_flag_is_not_draft
      [of "fresh_event 1 bare_payload" "[(''action'', JStr ''created'')]" "JStr ''created''"
          example_env empty_world]
    by (simp add: example_defs)
  have 2: "handle_event example_env (fresh_event 1 (release_payload ''released'' 42 7)) empty_world =
     handle_create_release example_env (fresh_event 1 (release_payload ''released'' 42 7)) empty_world"
    using absent_draft_flag_is_not_draft
      [of "fresh_event 1 (release_payload ''released'' 42 7)"
          "[(''action'', JStr ''released''),
            (''release'', JObj [(''id'', JInt 42), (''tag_name'', JStr ''v1.0'')]),
            (''repository'', JObj [(''id'', JInt 7), (''name'', JStr ''lib'')])]"
          "JStr ''released''" example_env empty_world]
    by (simp add: example_defs)
  from 1 2 show ?thesis by simp
qed


section \<open>Unclassified errors\<close>

text \<open>
  \<^bold>\<open>C9\<close>: for an event classified as a creation event whose payload has no \<^verbatim>\<open>release\<close>
  member, or a \<^verbatim>\<open>release\<close> object without \<^verbatim>\<open>id\<close>, the first statement of the \<^verbatim>\<open>try\<close>
  block raises \<^verbatim>\<open>KeyError\<close> with the world untouched (nothing was put into \<^verbatim>\<open>state\<close>).
  No \<^verbatim>\<open>except\<close> clause of \<^verbatim>\<open>_handle_create_release\<close> takes it, and \<^verbatim>\<open>run\<close> writes the
  response 500 with its message, provided the event arrives with no response or with a
  response code below 400. The world changes only in the log: no entry in \<^verbatim>\<open>state\<close>, no row.
\<close>

theorem missing_release_id_gets_500:
  assumes "is_create_release_event (payload ev) = Inr True"
    and "payload ev = JObj kvs"
    and "map_of kvs ''release'' = None
         \<or> (\<exists>rel. map_of kvs ''release'' = Some (JObj rel) \<and> map_of rel ''id'' = None)"
    and "\<not> py_truthy (response ev) \<or> (\<exists>c. response_code ev = Some c \<and> c < 400)"
  shows "\<exists>k. k \<in> {''release'', ''id''}
          \<and> try_create_release env ev w = (Some (KeyError k), w)
          \<and> run env ev w =
              (None, w\<lparr>trace := trace w @ [ResponseWrite 500]\<rparr>,
               ev\<lparr>response := JObj [(''status'', JInt 500),
                                    (''message'', JStr (str_exn env (KeyError k)))],
                  response_code := Some 500\<rparr>)"
proof -
  from assms(2,3) obtain k where k: "k \<in> {''release'', ''id''}"
    and g: "py_getitem2 (payload ev) ''release'' ''id'' = Inl (KeyError k)"
    by (auto simp: py_getitem2_def)
  from g have t: "try_create_release env ev w = (Some (KeyError k), w)"
    by (simp add: try_create_release_def)
  with assms(1) have h: "handle_event env ev w = (Some (KeyError k), w, ev)"
    by (simp add: handle_event_def handle_create_release_def)
  from h assms(4) have "run env ev w =
              (None, w\<lparr>trace := trace w @ [ResponseWrite 500]\<rparr>,
               ev\<lparr>response := JObj [(''status'', JInt 500),
                                    (''message'', JStr (str_exn env (KeyError k)))],
                  response_code := Some 500\<rparr>)"
    by (auto simp: run_def log_def)
  with k t show ?thesis by blast
qed

theorem missing_release_id_gets_500_witness:
  "run example_env (fresh_event 1 bare_payload) empty_world =
     (None, empty_world\<lparr>trace := [ResponseWrite 500]\<rparr>,
      (fresh_event 1 bare_payload)
        \<lparr>response := JObj [(''status'', JInt 500), (''message'', JStr ''failed'')],
         response_code := Some 500\<rparr>)
   \<and> run example_env (accepted_event 1 (JObj [(''action'', JStr ''published''),
                                               (''release'', JObj [(''tag_name'', JStr ''v1.0'')])]))
        empty_world =
     (None, empty_world\<lparr>trace := [ResponseWrite 500]\<rparr>,
      (accepted_event 1 (JObj [(''action'', JStr ''published''),
                               (''release'', JObj [(''tag_name'', JStr ''v1.0'')])]))
        \<lparr>response := JObj [(''status'', JInt 500), (''message'', JStr ''failed'')],
         response_code := Some 500\<rparr>)"
proof -
  let ?p = "JObj [(''action'', JStr ''published''), (''release'', JObj [(''tag_name'', JStr ''v1.0'')])]"
  have a: "is_create_release_event (payload (fresh_event 1 bare_payload)) = Inr True"
    "payload (fresh_event 1 bare_payload) = JObj [(''action'', JStr ''created'')]"
    "map_of [(''action'', JStr ''created'')] ''release'' = None
         \<or> (\<exists>rel. map_of [(''action'', JStr ''created'')] ''release'' = Some (JObj rel)
                   \<and> map_of rel ''id'' = None)"
    "\<not> py_truthy (response (fresh_event 1 bare_payload))
         \<or> (\<exists>c. response_code (fresh_event 1 bare_payload) = Some c \<and> c < 400)"
    by (simp_all add: is_create_release_event_def example_defs)
  have b: "is_create_release_event (payload (accepted_event 1 ?p)) = Inr True"
    "payload (accepted_event 1 ?p) =
       JObj [(''action'', JStr ''published''), (''release'', JObj [(''tag_name'', JStr ''v1.0'')])]"
    "map_of [(''action'', JStr ''published''), (''release'', JObj [(''tag_name'', JStr ''v1.0'')])]
        ''release'' = None
         \<or> (\<exists>rel. map_of [(''action'', JStr ''published''),
                           (''release'', JObj [(''tag_name'', JStr ''v1.0'')])] ''release''
                      = Some (JObj rel)
                   \<and> map_of rel ''id'' = None)"
    "\<not> py_truthy (response (accepted_event 1 ?p))
         \<or> (\<exists>c. response_code (accepted_event 1 ?p) = Some c \<and> c < 400)"
    by (simp_all add: is_create_release_event_def example_defs)
  from missing_release_id_gets_500 [OF a, of example_env empty_world]
       missing_release_id_gets_500 [OF b, of example_env empty_world]
  show ?thesis
    by (auto simp: example_defs)
qed

text \<open>
  \<^bold>\<open>C4\<close>: for an event whose response code is set whenever its response is set (as it is
  while both are unset, and after every write of this receiver), \<^verbatim>\<open>run\<close> returns normally, whatever the
  collaborators do. When \<^verbatim>\<open>_handle_event\<close> returns, \<^verbatim>\<open>run\<close> adds nothing. When it raises
  \<open>e\<close>, the event is still as it arrived, and \<^verbatim>\<open>run\<close> writes the response 500 with
  \<^verbatim>\<open>str(e)\<close> exactly when the response is falsy or the response code is below 400;
  otherwise (a code of 400 or more is already there) it leaves the event as it is.
\<close>

theorem run_never_raises:
  assumes "response_code ev = None \<longrightarrow> \<not> py_truthy (response ev)"
  shows "fst (run env ev w) = None
       \<and> (\<forall>w1 ev1. handle_event env ev w = (None, w1, ev1) \<longrightarrow> run env ev w = (None, w1, ev1))
       \<and> (\<forall>e w1 ev1. handle_event env ev w = (Some e, w1, ev1) \<longrightarrow>
            ev1 = ev \<and>
            run env ev w =
              (if \<not> py_truthy (response ev) \<or> (\<exists>c. response_code ev = Some c \<and> c < 400)
               then (None, w1\<lparr>trace := trace w1 @ [ResponseWrite 500]\<rparr>,
                     ev\<lparr>response := JObj [(''status'', JInt 500),
                                          (''message'', JStr (str_exn env e))],
                        response_code := Some 500\<rparr>)
               else (None, w1, ev)))"
proof (intro conjI allI impI)
  show "fst (run env ev w) = None"
  proof (cases "handle_event env ev w")
    case (fields x w1 ev1)
    show ?thesis
    proof (cases x)
      case None
      with fields show ?thesis by (simp add: run_def)
    next
      case (Some e)
      with fields have "ev1 = ev" by (auto dest: handle_event_raises)
      with fields Some assms show ?thesis
        by (auto simp: run_def split: option.splits)
    qed
  qed
next
  fix w1 ev1
  assume "handle_event env ev w = (None, w1, ev1)"
  then show "run env ev w = (None, w1, ev1)" by (simp add: run_def)
next
  fix e w1 ev1
  assume h: "handle_event env ev w = (Some e, w1, ev1)"
  then show eq: "ev1 = ev" by (rule handle_event_raises)
  from h eq assms show "run env ev w =
              (if \<not> py_truthy (response ev) \<or> (\<exists>c. response_code ev = Some c \<and> c < 400)
               then (None, w1\<lparr>trace := trace w1 @ [ResponseWrite 500]\<rparr>,
                     ev\<lparr>response := JObj [(''status'', JInt 500),
                                          (''message'', JStr (str_exn env e))],
                        response_code := Some 500\<rparr>)
               else (None, w1, ev))"
    by (auto simp: run_def log_def split: option.splits)
qed


theorem run_never_raises_witness:
  "run example_env (fresh_event 1 bare_payload) empty_world =
     (None, empty_world\<lparr>trace := [ResponseWrite 500]\<rparr>,
      (fresh_event 1 bare_payload)
        \<lparr>response := JObj [(''status'', JInt 500), (''message'', JStr ''failed'')],
         response_code := Some 500\<rparr>)
   \<and> run example_env
        ((fresh_event 1 bare_payload)
           \<lparr>response := JObj [(''status'', JInt 404)], response_code := Some 404\<rparr>) empty_world =
     (None, empty_world,
      (fresh_event 1 bare_payload)
        \<lparr>response := JObj [(''status'', JInt 404)], response_code := Some 404\<rparr>)"
proof -
  let ?e1 = "fresh_event 1 bare_payload"
  let ?e2 = "(fresh_event 1 bare_payload)
           \<lparr>response := JObj [(''status'', JInt 404)], response_code := Some 404\<rparr>"
  have a1: "response_code ?e1 = None \<longrightarrow> \<not> py_truthy (response ?e1)"
    by (simp add: example_defs)
  have a2: "response_code ?e2 = None \<longrightarrow> \<not> py_truthy (response ?e2)"
    by (simp add: example_defs)
  have h1: "handle_event example_env ?e1 empty_world = (Some (KeyError ''release''), empty_world, ?e1)"
    by (simp add: receiver_defs example_defs)
  have h2: "handle_event example_env ?e2 empty_world = (Some (KeyError ''release''), empty_world, ?e2)"
    by (simp add: receiver_defs example_defs)
  from run_never_raises [OF a1, of example_env empty_world] h1
  have 1: "run example_env ?e1 empty_world =
     (None, empty_world\<lparr>trace := [ResponseWrite 500]\<rparr>,
      ?e1\<lparr>response := JObj [(''status'', JInt 500), (''message'', JStr ''failed'')],
         response_code := Some 500\<rparr>)"
    by (simp add: example_defs)
  from run_never_raises [OF a2, of example_env empty_world] h2
  have 2: "run example_env ?e2 empty_world = (None, empty_world, ?e2)"
    by (simp add: example_defs)
  from 1 2 show ?thesis by simp
qed

text \<open>Outside that premise: a response without a response code makes the comparison in
  the \<^verbatim>\<open>except\<close> block of \<^verbatim>\<open>run\<close> raise.\<close>

lemma run_raises_on_response_without_code:
  "fst (run example_env
          ((fresh_event 1 bare_payload)\<lparr>response := JObj [(''status'', JInt 202)]\<rparr>) empty_world) =
     Some (TypeError ''<'')"
  by (simp add: receiver_defs example_defs)

text \<open>And a payload whose \<^verbatim>\<open>release\<close> member is not an object cannot be classified:
  \<^verbatim>\<open>_handle_event\<close> raises, and \<^verbatim>\<open>run\<close> answers 500.\<close>

lemma release_null_is_answered_500:
  "handle_event example_env
     (fresh_event 1 (JObj [(''action'', JStr ''ping''), (''release'', JNull)])) empty_world =
     (Some (AttributeError ''get''), empty_world,
      fresh_event 1 (JObj [(''action'', JStr ''ping''), (''release'', JNull)]))
   \<and> response_code (snd (snd (run example_env
        (fresh_event 1 (JObj [(''action'', JStr ''ping''), (''release'', JNull)])) empty_world))) =
     Some 500"
  by (simp add: receiver_defs example_defs)

section \<open>Commit before enqueue\<close>

lemma dispatch_async:
  assumes "py_truthy (async_mode env)" and "state w (dict_key rid) \<noteq> None"
    and "dispatch env rid r w = (x, w')"
  shows "(x = None \<longrightarrow>
            releases w' = releases w @ session_new w \<and> session_new w' = [] \<and>
            task_queue w' = task_queue w @ [release_id r] \<and>
            trace w' = trace w @ [SessionCommit, TaskEnqueue (release_id r)])
       \<and> (x \<noteq> None \<longrightarrow> task_queue w' = task_queue w)"
  using assms
  by (auto simp: dispatch_def session_commit_def process_release_delay_def unlock_def log_def
      split: option.splits if_splits)

text \<open>
  \<^bold>\<open>C6\<close>: in asynchronous mode, which is also the mode when \<^verbatim>\<open>GITHUB_ASYNC_MODE\<close> is not
  configured, an admission that succeeds has queried the store, staged the row, committed
  and enqueued, in this order: when the id is enqueued the committed rows are the old
  ones, the rows staged before, and the new row \<open>r\<close> with this id. An admission that fails
  enqueues nothing, so no id is handed to the task without its committed row.
\<close>

theorem commit_precedes_enqueue:
  assumes "config env ''GITHUB_ASYNC_MODE'' = None
           \<or> (\<exists>v. config env ''GITHUB_ASYNC_MODE'' = Some v \<and> py_truthy v)"
    and "py_getitem2 (payload ev) ''release'' ''id'' = Inr rid"
    and "try_create_release env ev w = (x, w')"
  shows "(x = None \<longrightarrow>
           (\<exists>r. release_id r = rid \<and> status r = RECEIVED \<and>
                releases w' = releases w @ session_new w @ [r] \<and> session_new w' = [] \<and>
                task_queue w' = task_queue w @ [rid] \<and>
                trace w' = trace w @ [StoreQuery rid, SessionAdd rid, SessionCommit, TaskEnqueue rid]))
       \<and> (x \<noteq> None \<longrightarrow> task_queue w' = task_queue w)"
proof -
  from assms(1) have am: "py_truthy (async_mode env)"
    by (auto simp: async_mode_def)
  let ?wl = "w\<lparr>state := (state w)(dict_key rid \<mapsto> event_id ev)\<rparr>"
  show ?thesis
  proof (cases "hashable rid \<and> state w (dict_key rid) = None")
    case False
    with assms(2,3) show ?thesis
      by (auto simp: try_create_release_def split: if_splits)
  next
    case True
    show ?thesis
    proof (cases "create_release env ev ?wl")
      case (Pair res w1)
      show ?thesis
      proof (cases res)
        case (Inl e)
        with Pair True assms(2,3) have "x = Some e" "w' = w1"
          by (simp_all add: try_create_release_def)
        moreover from Pair have "task_queue w1 = task_queue w"
          by (auto dest: create_release_frame)
        ultimately show ?thesis by simp
      next
        case (Inr r)
        with Pair have ok: "create_release env ev ?wl = (Inr r, w1)" by simp
        from create_release_ok [OF ok] assms(2)
        have r: "release_id r = rid" "status r = RECEIVED"
          and w1: "w1 = session_add r (log (StoreQuery rid) ?wl)"
          by simp_all
        from ok True assms(2,3) have d: "dispatch env rid r w1 = (x, w')"
          by (simp add: try_create_release_def)
        from w1 have st: "state w1 (dict_key rid) \<noteq> None"
          by (simp add: session_add_def log_def)
        from dispatch_async [OF am st d] r w1 show ?thesis
          by (auto simp: session_add_def log_def)
      qed
    qed
  qed
qed

theorem commit_precedes_enqueue_witness:
  "try_create_release example_env (fresh_event 1 (release_payload ''published'' 42 7)) empty_world =
     (None, snd (try_create_release example_env (fresh_event 1 (release_payload ''published'' 42 7)) empty_world))
   \<and> trace (snd (try_create_release example_env
               (fresh_event 1 (release_payload ''published'' 42 7)) empty_world)) =
       [StoreQuery (JInt 42), SessionAdd (JInt 42), SessionCommit, TaskEnqueue (JInt 42)]
   \<and> task_queue (snd (try_create_release example_env
               (fresh_event 1 (release_payload ''published'' 42 7)) empty_world)) = [JInt 42]
   \<and> releases (snd (try_create_release example_env
               (fresh_event 1 (release_payload ''published'' 42 7)) empty_world)) = [release_42]"
proof -
  let ?ev = "fresh_event 1 (release_payload ''published'' 42 7)"
  let ?w' = "snd (try_create_release example_env ?ev empty_world)"
  have a: "config example_env ''GITHUB_ASYNC_MODE'' = None
           \<or> (\<exists>v. config example_env ''GITHUB_ASYNC_MODE'' = Some v \<and> py_truthy v)"
    by (simp add: example_defs)
  have b: "py_getitem2 (payload ?ev) ''release'' ''id'' = Inr (JInt 42)"
    by (simp add: py_getitem2_def example_defs)
  have c: "try_create_release example_env ?ev empty_world = (None, ?w')"
    by (simp add: receiver_defs example_defs)
  have d: "releases ?w' = [release_42]"
    by (simp add: receiver_defs example_defs)
  from commit_precedes_enqueue [OF a b c] c d show ?thesis
    by (auto simp: example_defs)
qed

section \<open>How many responses are written\<close>

lemma handler_code_values:
  "handler_code e = Some c \<Longrightarrow> c \<in> {403, 404, 409}"
  by (cases e) auto

lemma handle_create_release_writes:
  assumes "handle_create_release env ev w = (x, w1, ev1)"
  shows "(response_writes (trace w1) = response_writes (trace w) \<and> ev1 = ev)
       \<or> (x = None \<and> response_writes (trace w1) = Suc (response_writes (trace w)) \<and>
           (\<exists>c e. c \<in> {403, 404, 409} \<and>
              ev1 = ev\<lparr>response := JObj [(''message'', JStr (str_exn env e)), (''status'', JInt c)],
                       response_code := Some c\<rparr>))"
proof (cases "try_create_release env ev w")
  case (Pair y w2)
  then have wr: "response_writes (trace w2) = response_writes (trace w)"
    by (rule try_create_release_writes)
  show ?thesis
  proof (cases y)
    case None
    with Pair assms wr show ?thesis by (simp add: handle_create_release_def)
  next
    case (Some e)
    show ?thesis
    proof (cases "handler_code e")
      case None
      with Some Pair assms wr show ?thesis by (simp add: handle_create_release_def)
    next
      case (Some c)
      then have "c \<in> {403, 404, 409}" by (rule handler_code_values)
      with Some \<open>y = Some e\<close> Pair assms wr show ?thesis
        by (auto simp: handle_create_release_def respond_def log_def)
    qed
  qed
qed

lemma handle_event_writes:
  assumes "handle_event env ev w = (x, w1, ev1)"
  shows "(response_writes (trace w1) = response_writes (trace w) \<and> ev1 = ev)
       \<or> (x = None \<and> response_writes (trace w1) = Suc (response_writes (trace w)) \<and>
           (\<exists>c e. c \<in> {403, 404, 409} \<and>
              ev1 = ev\<lparr>response := JObj [(''message'', JStr (str_exn env e)), (''status'', JInt c)],
                       response_code := Some c\<rparr>))"
proof (cases "is_create_release_event (payload ev) = Inr True")
  case True
  with assms have "handle_create_release env ev w = (x, w1, ev1)"
    by (simp add: handle_event_def)
  then show ?thesis by (rule handle_create_release_writes)
next
  case False
  with assms have "w1 = w \<and> ev1 = ev"
    by (auto simp: handle_event_def split: sum.splits bool.splits)
  then show ?thesis by simp
qed

lemma run_writes_at_most_once:
  "\<exists>x w' ev'. run env ev w = (x, w', ev') \<and>
       ((response_writes (trace w') = response_writes (trace w) \<and> ev' = ev)
        \<or> (response_writes (trace w') = Suc (response_writes (trace w)) \<and> x = None \<and>
            (\<exists>c m. c \<in> {403, 404, 409, 500} \<and> response_code ev' = Some c \<and>
                py_get (response ev') ''status'' JNull = Inr (JInt c) \<and>
                py_get (response ev') ''message'' JNull = Inr (JStr m) \<and>
                event_id ev' = event_id ev \<and> payload ev' = payload ev)))"
proof -
  show "\<exists>x w' ev'. run env ev w = (x, w', ev') \<and>
       ((response_writes (trace w') = response_writes (trace w) \<and> ev' = ev)
        \<or> (response_writes (trace w') = Suc (response_writes (trace w)) \<and> x = None \<and>
            (\<exists>c m. c \<in> {403, 404, 409, 500} \<and> response_code ev' = Some c \<and>
                py_get (response ev') ''status'' JNull = Inr (JInt c) \<and>
                py_get (response ev') ''message'' JNull = Inr (JStr m) \<and>
                event_id ev' = event_id ev \<and> payload ev' = payload ev)))"
    (is "\<exists>x w' ev'. run env ev w = (x, w', ev') \<and> (?same w' ev' \<or> ?wrote x w' ev')")
  proof (cases "handle_event env ev w")
    case (fields y w1 ev1)
    note hw = handle_event_writes [OF fields]
    show ?thesis
    proof (cases y)
      case None
      with fields have r: "run env ev w = (None, w1, ev1)" by (simp add: run_def)
      from hw have "?same w1 ev1 \<or> ?wrote None w1 ev1"
      proof (elim disjE conjE exE)
        assume "response_writes (trace w1) = response_writes (trace w)" "ev1 = ev"
        then show ?thesis by simp
      next
        fix c e
        assume n: "response_writes (trace w1) = Suc (response_writes (trace w))"
          and c: "c \<in> {403, 404, 409}"
          and e: "ev1 = ev\<lparr>response := JObj [(''message'', JStr (str_exn env e)), (''status'', JInt c)],
                       response_code := Some c\<rparr>"
        from c have "c \<in> {403, 404, 409, 500}" by blast
        moreover from e have "response_code ev1 = Some c \<and>
                py_get (response ev1) ''status'' JNull = Inr (JInt c) \<and>
                py_get (response ev1) ''message'' JNull = Inr (JStr (str_exn env e)) \<and>
                event_id ev1 = event_id ev \<and> payload ev1 = payload ev"
          by simp
        ultimately have "?wrote None w1 ev1" using n by blast
        then show ?thesis ..
      qed
      with r show ?thesis by blast
    next
      case (Some e)
      with hw have same: "response_writes (trace w1) = response_writes (trace w)" "ev1 = ev"
        by auto
      let ?w2 = "w1\<lparr>trace := trace w1 @ [ResponseWrite 500]\<rparr>"
      let ?ev2 = "ev\<lparr>response := JObj [(''status'', JInt 500), (''message'', JStr (str_exn env e))],
                     response_code := Some 500\<rparr>"
      from fields Some same have
        "run env ev w = (Some (TypeError ''<''), w1, ev) \<or> run env ev w = (None, w1, ev)
         \<or> run env ev w = (None, ?w2, ?ev2)"
        by (simp add: run_def log_def split: option.splits)
      moreover have "?same w1 ev" using same by simp
      moreover have "?wrote None ?w2 ?ev2"
      proof -
        have "(500::int) \<in> {403, 404, 409, 500}" by simp
        moreover have "response_code ?ev2 = Some 500 \<and>
                py_get (response ?ev2) ''status'' JNull = Inr (JInt 500) \<and>
                py_get (response ?ev2) ''message'' JNull = Inr (JStr (str_exn env e)) \<and>
                event_id ?ev2 = event_id ev \<and> payload ?ev2 = payload ev"
          by simp
        moreover have "response_writes (trace ?w2) = Suc (response_writes (trace w))"
          using same by simp
        ultimately show ?thesis by blast
      qed
      ultimately show ?thesis by blast
    qed
  qed
qed


lemma run_classified_failure:
  assumes "is_create_release_event (payload ev) = Inr True"
    and "try_create_release env ev w = (Some e, w1)"
    and "handler_code e = Some c"
  shows "run env ev w =
           (None, w1\<lparr>trace := trace w1 @ [ResponseWrite c]\<rparr>,
            ev\<lparr>response := JObj [(''message'', JStr (str_exn env e)), (''status'', JInt c)],
               response_code := Some c\<rparr>)"
  using assms
  by (simp add: run_def handle_event_def handle_create_release_def respond_def log_def)

lemma run_unclassified_failure:
  assumes "handle_event env ev w = (Some e, w1, ev1)"
    and "\<not> py_truthy (response ev) \<or> (\<exists>c. response_code ev = Some c \<and> c < 400)"
  shows "run env ev w =
           (None, w1\<lparr>trace := trace w1 @ [ResponseWrite 500]\<rparr>,
            ev\<lparr>response := JObj [(''status'', JInt 500), (''message'', JStr (str_exn env e))],
               response_code := Some 500\<rparr>)
         \<and> response_writes (trace w1) = response_writes (trace w)"
proof -
  from assms(1) have eq: "ev1 = ev" by (rule handle_event_raises)
  from handle_event_writes [OF assms(1)]
  have n: "response_writes (trace w1) = response_writes (trace w)" by auto
  from assms eq have "run env ev w =
           (None, w1\<lparr>trace := trace w1 @ [ResponseWrite 500]\<rparr>,
            ev\<lparr>response := JObj [(''status'', JInt 500), (''message'', JStr (str_exn env e))],
               response_code := Some 500\<rparr>)"
    by (auto simp: run_def log_def)
  with n show ?thesis by simp
qed

text \<open>
  \<^bold>\<open>C5\<close>, as the source has it. Handling an event fails when the classification raises,
  or when the event is a creation event and the \<^verbatim>\<open>try\<close> block of
  \<^verbatim>\<open>_handle_create_release\<close> raises. For an event that arrives with no response or with a
  response code below 400, \<^verbatim>\<open>run\<close> returns normally and
  \<^item> when handling fails, exactly one response is written: the event carries a code among
    403, 404, 409 and 500, the same status, and a message;
  \<^item> otherwise (the event is discarded, or its admission succeeds) none is written and
    the event is as it arrived.
  The other conjuncts say which response it is, and what holds for every event: a
  discarded event and a successful admission get none; a failure that
  \<^verbatim>\<open>_handle_create_release\<close> classifies gets exactly the response of its \<^verbatim>\<open>except\<close> clause,
  whatever the event carried; a failure that reaches \<^verbatim>\<open>run\<close> gets exactly the response
  500; and no event gets more than one.
\<close>

theorem one_response_exactly_on_failure:
  "(\<not> py_truthy (response ev) \<or> (\<exists>c. response_code ev = Some c \<and> c < 400) \<longrightarrow>
      (\<exists>w' ev'. run env ev w = (None, w', ev') \<and>
         (if is_create_release_event (payload ev) = Inr False
             \<or> (is_create_release_event (payload ev) = Inr True
                 \<and> fst (try_create_release env ev w) = None)
          then response_writes (trace w') = response_writes (trace w) \<and> ev' = ev
          else response_writes (trace w') = Suc (response_writes (trace w)) \<and>
               (\<exists>c m. c \<in> {403, 404, 409, 500} \<and> response_code ev' = Some c \<and>
                  py_get (response ev') ''status'' JNull = Inr (JInt c) \<and>
                  py_get (response ev') ''message'' JNull = Inr (JStr m) \<and>
                  event_id ev' = event_id ev \<and> payload ev' = payload ev))))
   \<and> (is_create_release_event (payload ev) = Inr False \<longrightarrow> run env ev w = (None, w, ev))
   \<and> (\<forall>w1. is_create_release_event (payload ev) = Inr True \<and>
            try_create_release env ev w = (None, w1) \<longrightarrow>
         run env ev w = (None, w1, ev) \<and>
         response_writes (trace w1) = response_writes (trace w))
   \<and> (\<forall>e w1 c. is_create_release_event (payload ev) = Inr True \<and>
            try_create_release env ev w = (Some e, w1) \<and> handler_code e = Some c \<longrightarrow>
         run env ev w =
           (None, w1\<lparr>trace := trace w1 @ [ResponseWrite c]\<rparr>,
            ev\<lparr>response := JObj [(''message'', JStr (str_exn env e)), (''status'', JInt c)],
               response_code := Some c\<rparr>) \<and>
         response_writes (trace w1) = response_writes (trace w))
   \<and> (\<forall>e w1 ev1. handle_event env ev w = (Some e, w1, ev1) \<and>
            (\<not> py_truthy (response ev) \<or> (\<exists>c. response_code ev = Some c \<and> c < 400)) \<longrightarrow>
         run env ev w =
           (None, w1\<lparr>trace := trace w1 @ [ResponseWrite 500]\<rparr>,
            ev\<lparr>response := JObj [(''status'', JInt 500), (''message'', JStr (str_exn env e))],
               response_code := Some 500\<rparr>) \<and>
         response_writes (trace w1) = response_writes (trace w))
   \<and> (\<exists>x w' ev'. run env ev w = (x, w', ev') \<and>
         response_writes (trace w') \<le> Suc (response_writes (trace w)))"
proof (intro conjI impI allI)
  assume fresh: "\<not> py_truthy (response ev) \<or> (\<exists>c. response_code ev = Some c \<and> c < 400)"
  let ?quiet = "is_create_release_event (payload ev) = Inr False
             \<or> (is_create_release_event (payload ev) = Inr True
                 \<and> fst (try_create_release env ev w) = None)"
  let ?wrote = "\<lambda>w' ev'. response_writes (trace w') = Suc (response_writes (trace w)) \<and>
               (\<exists>c m. c \<in> {403, 404, 409, 500} \<and> response_code ev' = Some c \<and>
                  py_get (response ev') ''status'' JNull = Inr (JInt c) \<and>
                  py_get (response ev') ''message'' JNull = Inr (JStr m) \<and>
                  event_id ev' = event_id ev \<and> payload ev' = payload ev)"
  have unclassified: "\<exists>w' ev'. run env ev w = (None, w', ev') \<and> ?wrote w' ev'"
    if h: "handle_event env ev w = (Some e, w1, ev1)" for e w1 ev1
  proof -
    let ?w2 = "w1\<lparr>trace := trace w1 @ [ResponseWrite 500]\<rparr>"
    let ?ev2 = "ev\<lparr>response := JObj [(''status'', JInt 500), (''message'', JStr (str_exn env e))],
                   response_code := Some 500\<rparr>"
    from run_unclassified_failure [OF h fresh]
    have r: "run env ev w = (None, ?w2, ?ev2)"
      and n: "response_writes (trace w1) = response_writes (trace w)" by simp_all
    have "(500::int) \<in> {403, 404, 409, 500}" by simp
    moreover have "response_code ?ev2 = Some 500 \<and>
                py_get (response ?ev2) ''status'' JNull = Inr (JInt 500) \<and>
                py_get (response ?ev2) ''message'' JNull = Inr (JStr (str_exn env e)) \<and>
                event_id ?ev2 = event_id ev \<and> payload ?ev2 = payload ev"
      by simp
    moreover have "response_writes (trace ?w2) = Suc (response_writes (trace w))"
      using n by simp
    ultimately have "?wrote ?w2 ?ev2" by blast
    with r show ?thesis by blast
  qed
  show "\<exists>w' ev'. run env ev w = (None, w', ev') \<and>
         (if ?quiet then response_writes (trace w') = response_writes (trace w) \<and> ev' = ev
          else ?wrote w' ev')"
  proof (cases "is_create_release_event (payload ev)")
    case (Inl e)
    then have "handle_event env ev w = (Some e, w, ev)" by (simp add: handle_event_def)
    from unclassified [OF this] Inl show ?thesis by simp
  next
    case (Inr b)
    show ?thesis
    proof (cases b)
      case False
      with Inr have "run env ev w = (None, w, ev)" by (simp add: run_def handle_event_def)
      with Inr False show ?thesis by simp
    next
      case True
      show ?thesis
      proof (cases "try_create_release env ev w")
        case (Pair y w1)
        then have n: "response_writes (trace w1) = response_writes (trace w)"
          by (rule try_create_release_writes)
        show ?thesis
        proof (cases y)
          case None
          with Pair Inr True have "run env ev w = (None, w1, ev)"
            by (simp add: run_def handle_event_def handle_create_release_def)
          with Pair None Inr True n show ?thesis by simp
        next
          case (Some e)
          with Pair Inr True have loud: "\<not> ?quiet" by simp
          have "\<exists>w' ev'. run env ev w = (None, w', ev') \<and> ?wrote w' ev'"
          proof (cases "handler_code e")
            case None
            with Pair Some Inr True have "handle_event env ev w = (Some e, w1, ev)"
              by (simp add: handle_event_def handle_create_release_def)
            then show ?thesis by (rule unclassified)
          next
            case (Some c)
            let ?w2 = "w1\<lparr>trace := trace w1 @ [ResponseWrite c]\<rparr>"
            let ?ev2 = "ev\<lparr>response := JObj [(''message'', JStr (str_exn env e)), (''status'', JInt c)],
                           response_code := Some c\<rparr>"
            from Inr True Pair \<open>y = Some e\<close> Some
            have r: "run env ev w = (None, ?w2, ?ev2)"
              by (simp add: run_classified_failure)
            from Some have "c \<in> {403, 404, 409}" by (rule handler_code_values)
            then have "c \<in> {403, 404, 409, 500}" by blast
            moreover have "response_code ?ev2 = Some c \<and>
                py_get (response ?ev2) ''status'' JNull = Inr (JInt c) \<and>
                py_get (response ?ev2) ''message'' JNull = Inr (JStr (str_exn env e)) \<and>
                event_id ?ev2 = event_id ev \<and> payload ?ev2 = payload ev"
              by simp
            moreover have "response_writes (trace ?w2) = Suc (response_writes (trace w))"
              using n by simp
            ultimately have "?wrote ?w2 ?ev2" by blast
            with r show ?thesis by blast
          qed
          with loud show ?thesis by (simp only: if_not_P if_False)
        qed
      qed
    qed
  qed
next
  assume "is_create_release_event (payload ev) = Inr False"
  then show "run env ev w = (None, w, ev)"
    by (simp add: run_def handle_event_def)
next
  fix w1
  assume a: "is_create_release_event (payload ev) = Inr True \<and>
            try_create_release env ev w = (None, w1)"
  then show "run env ev w = (None, w1, ev)"
    by (simp add: run_def handle_event_def handle_create_release_def)
  from a show "response_writes (trace w1) = response_writes (trace w)"
    by (auto dest: try_create_release_writes)
next
  fix e w1 c
  assume a: "is_create_release_event (payload ev) = Inr True \<and>
            try_create_release env ev w = (Some e, w1) \<and> handler_code e = Some c"
  then show "run env ev w =
           (None, w1\<lparr>trace := trace w1 @ [ResponseWrite c]\<rparr>,
            ev\<lparr>response := JObj [(''message'', JStr (str_exn env e)), (''status'', JInt c)],
               response_code := Some c\<rparr>)"
    by (simp add: run_classified_failure)
  from a show "response_writes (trace w1) = response_writes (trace w)"
    by (auto dest: try_create_release_writes)
next
  fix e w1 ev1
  assume a: "handle_event env ev w = (Some e, w1, ev1) \<and>
            (\<not> py_truthy (response ev) \<or> (\<exists>c. response_code ev = Some c \<and> c < 400))"
  then have h: "handle_event env ev w = (Some e, w1, ev1)"
    and f: "\<not> py_truthy (response ev) \<or> (\<exists>c. response_code ev = Some c \<and> c < 400)"
    by simp_all
  from run_unclassified_failure [OF h f]
  show "run env ev w =
           (None, w1\<lparr>trace := trace w1 @ [ResponseWrite 500]\<rparr>,
            ev\<lparr>response := JObj [(''status'', JInt 500), (''message'', JStr (str_exn env e))],
               response_code := Some 500\<rparr>)"
    and "response_writes (trace w1) = response_writes (trace w)"
    by simp_all
next
  from run_writes_at_most_once [of env ev w]
  show "\<exists>x w' ev'. run env ev w = (x, w', ev') \<and>
         response_writes (trace w') \<le> Suc (response_writes (trace w))"
    by force
qed

text \<open>
  As the spec states \<^bold>\<open>C5\<close>, every event gets exactly one response from this layer,
  successful admissions and discarded events included. Evaluated here: release 42 of the
  enabled repository 7 is admitted and committed, and a ping is discarded; in both runs
  the log holds no response write and the event still has no response and no code.
\<close>

theorem no_response_on_success_or_discard:
  "fst (run example_env (fresh_event 1 (release_payload ''published'' 42 7)) empty_world) = None
   \<and> releases (fst (snd (run example_env
        (fresh_event 1 (release_payload ''published'' 42 7)) empty_world))) = [release_42]
   \<and> response_writes (trace (fst (snd (run example_env
        (fresh_event 1 (release_payload ''published'' 42 7)) empty_world)))) = 0
   \<and> snd (snd (run example_env (fresh_event 1 (release_payload ''published'' 42 7)) empty_world)) =
       fresh_event 1 (release_payload ''published'' 42 7)
   \<and> response (fresh_event 1 (release_payload ''published'' 42 7)) = JNull
   \<and> response_code (fresh_event 1 (release_payload ''published'' 42 7)) = None
   \<and> run example_env (fresh_event 2 ping_payload) empty_world =
       (None, empty_world, fresh_event 2 ping_payload)
   \<and> response_writes (trace empty_world) = 0"
  by (simp add: receiver_defs example_defs)

theorem one_response_exactly_on_failure_witness:
  "run example_env (fresh_event 3 draft_payload) empty_world =
     (None, empty_world, fresh_event 3 draft_payload)
   \<and> fst (run example_env (fresh_event 1 (release_payload ''published'' 42 7)) empty_world) = None
   \<and> snd (snd (run example_env (fresh_event 1 (release_payload ''published'' 42 7)) empty_world)) =
       fresh_event 1 (release_payload ''published'' 42 7)
   \<and> response_writes (trace (fst (snd (run example_env
        (fresh_event 1 (release_payload ''published'' 42 7)) empty_world)))) = 0
   \<and> run example_env (fresh_event 1 (release_payload ''published'' 42 9)) empty_world =
       (None,
        empty_world\<lparr>state := [JInt 42 \<mapsto> 1], trace := [StoreQuery (JInt 42), ResponseWrite 404]\<rparr>,
        (fresh_event 1 (release_payload ''published'' 42 9))
          \<lparr>response := JObj [(''message'', JStr ''failed''), (''status'', JInt 404)],
           response_code := Some 404\<rparr>)
   \<and> run example_env (fresh_event 1 bare_payload) empty_world =
       (None, empty_world\<lparr>trace := [ResponseWrite 500]\<rparr>,
        (fresh_event 1 bare_payload)
          \<lparr>response := JObj [(''status'', JInt 500), (''message'', JStr ''failed'')],
           response_code := Some 500\<rparr>)"
proof -
  let ?ev = "fresh_event 1 (release_payload ''published'' 42 7)"
  let ?w1 = "snd (try_create_release example_env ?ev empty_world)"
  let ?ev9 = "fresh_event 1 (release_payload ''published'' 42 9)"
  let ?w9 = "snd (try_create_release example_env ?ev9 empty_world)"
  let ?evb = "fresh_event 1 bare_payload"
  have d: "is_create_release_event (payload (fresh_event 3 draft_payload)) = Inr False"
    by (simp add: is_create_release_event_def example_defs)
  have c: "is_create_release_event (payload ?ev) = Inr True"
    by (simp add: is_create_release_event_def example_defs)
  have t: "try_create_release example_env ?ev empty_world = (None, ?w1)"
    by (simp add: receiver_defs example_defs)
  have c9: "is_create_release_event (payload ?ev9) = Inr True"
    by (simp add: is_create_release_event_def example_defs)
  have t9: "try_create_release example_env ?ev9 empty_world =
              (Some (RepositoryNotFoundError (JStr ''lib'')), ?w9)"
    by (simp add: receiver_defs example_defs)
  have k9: "handler_code (RepositoryNotFoundError (JStr ''lib'')) = Some 404" by simp
  have w9: "?w9 = empty_world\<lparr>state := [JInt 42 \<mapsto> 1], trace := [StoreQuery (JInt 42)]\<rparr>"
    by (simp add: receiver_defs example_defs)
  have hb: "handle_event example_env ?evb empty_world = (Some (KeyError ''release''), empty_world, ?evb)"
    by (simp add: receiver_defs example_defs)
  have fb: "\<not> py_truthy (response ?evb) \<or> (\<exists>c. response_code ?evb = Some c \<and> c < 400)"
    by (simp add: example_defs)
  from one_response_exactly_on_failure [of "fresh_event 3 draft_payload" example_env empty_world] d
  have 1: "run example_env (fresh_event 3 draft_payload) empty_world =
     (None, empty_world, fresh_event 3 draft_payload)"
    by blast
  from one_response_exactly_on_failure [of ?ev example_env empty_world] c t
  have 2: "run example_env ?ev empty_world = (None, ?w1, ?ev)
           \<and> response_writes (trace ?w1) = response_writes (trace empty_world)"
    by blast
  from one_response_exactly_on_failure [of ?ev9 example_env empty_world] c9 t9 k9
  have "run example_env ?ev9 empty_world =
           (None, ?w9\<lparr>trace := trace ?w9 @ [ResponseWrite 404]\<rparr>,
            ?ev9\<lparr>response := JObj [(''message'', JStr (str_exn example_env (RepositoryNotFoundError (JStr ''lib'')))),
                                  (''status'', JInt 404)],
                 response_code := Some 404\<rparr>)"
    by blast
  with w9 have 3: "run example_env ?ev9 empty_world =
       (None,
        empty_world\<lparr>state := [JInt 42 \<mapsto> 1], trace := [StoreQuery (JInt 42), ResponseWrite 404]\<rparr>,
        ?ev9\<lparr>response := JObj [(''message'', JStr ''failed''), (''status'', JInt 404)],
           response_code := Some 404\<rparr>)"
    by (simp add: example_defs)
  from one_response_exactly_on_failure [of ?evb example_env empty_world] hb fb
  have "run example_env ?evb empty_world =
           (None, empty_world\<lparr>trace := trace empty_world @ [ResponseWrite 500]\<rparr>,
            ?evb\<lparr>response := JObj [(''status'', JInt 500),
                                  (''message'', JStr (str_exn example_env (KeyError ''release'')))],
                 response_code := Some 500\<rparr>)"
    by blast
  then have 4: "run example_env ?evb empty_world =
       (None, empty_world\<lparr>trace := [ResponseWrite 500]\<rparr>,
        ?evb\<lparr>response := JObj [(''status'', JInt 500), (''message'', JStr ''failed'')],
           response_code := Some 500\<rparr>)"
    by (simp add: example_defs)
  from 1 2 3 4 show ?thesis
    by (simp add: example_defs)
qed

end
